theory Spec2Isabelle
  imports Complex_Main
begin

section \<open>Loan metrics validation: the expected-value formulas\<close>

text \<open>
  The development embeds the expected-value computations of
  \<^verbatim>\<open>backend/tests/test_loan_metrics_validation.py\<close> (class \<^verbatim>\<open>MetricsValidator\<close>).
  Each \<^verbatim>\<open>validate_*\<close> method computes an expected metric from two database rows
  (\<^verbatim>\<open>django_data\<close>, \<^verbatim>\<open>metrics_data\<close>) and compares it with the stored one; the
  functions below are those expected-value computations.

  Conventions of the embedding.
  \<^item> A \<^verbatim>\<open>Decimal\<close> is an exact rational; the rounding of the decimal context to 28
    significant digits is not modelled. The binary floating-point arithmetic of
    \<^verbatim>\<open>validate_repayment_delay_rate\<close> is likewise taken as exact rational arithmetic.
  \<^item> A \<^verbatim>\<open>datetime.date\<close> is its proleptic Gregorian ordinal (\<^verbatim>\<open>date.toordinal()\<close>),
    an integer between 1 and \<^verbatim>\<open>MAXORDINAL\<close> (the ordinal of 9999-12-31).
  \<^item> A column of a row is optional exactly when the code tests it against \<^verbatim>\<open>None\<close> or
    for truthiness somewhere; every other column is a value of its type.
  \<^item> \<^verbatim>\<open>date.today()\<close> reads the system clock, which is an explicit argument here.
\<close>

subsection \<open>Values, dates, errors\<close>

type_synonym decimal = rat

type_synonym date = int

datatype error = OverflowError | TypeError | DivisionByZero

definition MAXORDINAL :: int where
  "MAXORDINAL = 3652059"

definition valid_date :: "date \<Rightarrow> bool" where
  "valid_date d = (1 \<le> d \<and> d \<le> MAXORDINAL)"

text \<open>\<^verbatim>\<open>date.weekday()\<close>: 0 is Monday, 6 is Sunday.\<close>

definition weekday :: "date \<Rightarrow> int" where
  "weekday d = (d + 6) mod 7"

text \<open>\<^verbatim>\<open>current + timedelta(days=1)\<close>: raises \<^verbatim>\<open>OverflowError\<close> past 9999-12-31.\<close>

definition next_day :: "date \<Rightarrow> error + date" where
  "next_day d = (if d + 1 \<le> MAXORDINAL then Inr (d + 1) else Inl OverflowError)"

text \<open>\<^verbatim>\<open>int(x)\<close> of a \<^verbatim>\<open>Decimal\<close>: truncation towards zero.\<close>

definition py_int :: "decimal \<Rightarrow> int" where
  "py_int x = (if 0 \<le> x then \<lfloor>x\<rfloor> else \<lceil>x\<rceil>)"

text \<open>Division of a \<^verbatim>\<open>Decimal\<close>: a zero divisor raises.\<close>

definition dec_div :: "decimal \<Rightarrow> decimal \<Rightarrow> error + decimal" where
  "dec_div a b = (if b = 0 then Inl DivisionByZero else Inr (a / b))"

text \<open>Truthiness of an optional number: neither \<^verbatim>\<open>None\<close> nor zero.\<close>

definition truthy :: "'a::zero option \<Rightarrow> bool" where
  "truthy v = (case v of None \<Rightarrow> False | Some x \<Rightarrow> x \<noteq> 0)"

text \<open>
  The system clock. \<^verbatim>\<open>date.today()\<close> returns the local calendar date and ignores the
  time of day.
\<close>

record system_clock =
  local_date :: date
  seconds_into_day :: nat

definition date_today :: "system_clock \<Rightarrow> date" where
  "date_today clk = local_date clk"

subsection \<open>The two rows\<close>

text \<open>The columns of \<^verbatim>\<open>django_data\<close> that the expected-value formulas read.\<close>

record django_loan =
  loan_amount :: decimal
  disbursement_date :: "date option"
  loan_term_days :: int
  interest_rate :: decimal
  fee_amount :: "decimal option"

text \<open>The columns of \<^verbatim>\<open>metrics_data\<close> that the expected-value formulas read.\<close>

record metrics_loan =
  first_payment_due_date :: "date option"
  first_payment_received_date :: "date option"
  total_principal_paid :: decimal
  total_interest_paid :: decimal
  total_fees_paid :: decimal
  total_repayments :: decimal
  actual_outstanding :: "decimal option"
  current_dpd :: int
  loan_age :: "int option"
  days_since_last_repayment :: "int option"
  daily_repayment_amount :: "decimal option"
  repayment_days_paid :: decimal
  repayment_days_due_today :: "int option"

subsection \<open>\<^verbatim>\<open>count_business_days\<close>\<close>

function count_loop :: "date \<Rightarrow> date \<Rightarrow> int \<Rightarrow> error + int" where
  "count_loop current end_date days =
     (if current \<le> end_date then
        (let days' = (if weekday current < 5 then days + 1 else days) in
         case next_day current of
           Inl e \<Rightarrow> Inl e
         | Inr current' \<Rightarrow> count_loop current' end_date days')
      else Inr days)"
  by pat_completeness auto
termination
  by (relation "measure (\<lambda>(current, end_date, days). nat (end_date + 1 - current))")
     (auto simp: next_day_def split: if_splits)

declare count_loop.simps [simp del]

definition count_business_days :: "date option \<Rightarrow> date option \<Rightarrow> error + int" where
  "count_business_days start_date end_date =
     (case start_date of
        None \<Rightarrow> Inr 0
      | Some s \<Rightarrow>
          (case end_date of
             None \<Rightarrow> Inr 0
           | Some e \<Rightarrow> count_loop s e 0))"

text \<open>
  The contract of the specification, in its own words: the number of calendar days of
  the inclusive interval whose weekday is Monday to Friday, and 0 when a date is absent.
\<close>

definition is_business_day :: "date \<Rightarrow> bool" where
  "is_business_day d = (weekday d \<in> {0, 1, 2, 3, 4})"

definition businessDaysBetween :: "date option \<Rightarrow> date option \<Rightarrow> int" where
  "businessDaysBetween start_date end_date =
     (case (start_date, end_date) of
        (Some s, Some e) \<Rightarrow> int (length (filter is_business_day [s..e]))
      | _ \<Rightarrow> 0)"

subsection \<open>\<^verbatim>\<open>validate_outstanding_balances\<close>\<close>

text \<open>\<^verbatim>\<open>Decimal(str(fee_amount)) if fee_amount else Decimal('0')\<close>\<close>

definition fee_of :: "django_loan \<Rightarrow> decimal" where
  "fee_of d = (if truthy (fee_amount d) then the (fee_amount d) else 0)"

definition expected_principal_outstanding :: "django_loan \<Rightarrow> metrics_loan \<Rightarrow> decimal" where
  "expected_principal_outstanding d m = loan_amount d - total_principal_paid m"

definition expected_interest_outstanding :: "django_loan \<Rightarrow> metrics_loan \<Rightarrow> decimal" where
  "expected_interest_outstanding d m =
     max 0 ((loan_amount d * interest_rate d) - total_interest_paid m)"

definition expected_fees_outstanding :: "django_loan \<Rightarrow> metrics_loan \<Rightarrow> decimal" where
  "expected_fees_outstanding d m = max 0 (fee_of d - total_fees_paid m)"

definition expected_total_outstanding :: "django_loan \<Rightarrow> metrics_loan \<Rightarrow> decimal" where
  "expected_total_outstanding d m =
     expected_principal_outstanding d m + expected_interest_outstanding d m
       + expected_fees_outstanding d m"

subsection \<open>\<^verbatim>\<open>validate_business_days_calculations\<close>\<close>

text \<open>The first two checks run only when the disbursement date is present.\<close>

definition expected_business_days :: "system_clock \<Rightarrow> django_loan \<Rightarrow> (error + int) option" where
  "expected_business_days clk d =
     (case disbursement_date d of
        None \<Rightarrow> None
      | Some disb \<Rightarrow> Some (count_business_days (Some disb) (Some (date_today clk))))"

definition expected_loan_age :: "system_clock \<Rightarrow> django_loan \<Rightarrow> int option" where
  "expected_loan_age clk d =
     (case disbursement_date d of
        None \<Rightarrow> None
      | Some disb \<Rightarrow> Some (date_today clk - disb))"

definition repayment_amount :: "django_loan \<Rightarrow> decimal" where
  "repayment_amount d = loan_amount d * (1 + interest_rate d) + fee_of d"

definition expected_daily_repayment :: "django_loan \<Rightarrow> error + decimal" where
  "expected_daily_repayment d =
     (if loan_term_days d > 0 then dec_div (repayment_amount d) (of_int (loan_term_days d))
      else Inr 0)"

text \<open>
  The check of \<^verbatim>\<open>repayment_days_paid\<close> runs only when the stored daily amount is
  present and positive; \<open>None\<close> is the skipped check.
\<close>

definition expected_repayment_days_paid :: "metrics_loan \<Rightarrow> (error + decimal) option" where
  "expected_repayment_days_paid m =
     (if truthy (daily_repayment_amount m) \<and> the (daily_repayment_amount m) > 0
      then Some (dec_div (total_repayments m) (the (daily_repayment_amount m)))
      else None)"

subsection \<open>\<^verbatim>\<open>validate_actual_outstanding\<close> and \<^verbatim>\<open>validate_dpd_calculations\<close>\<close>

definition expected_actual_outstanding :: "metrics_loan \<Rightarrow> decimal" where
  "expected_actual_outstanding m =
     (if truthy (daily_repayment_amount m) \<and> truthy (repayment_days_due_today m)
      then max 0 ((the (daily_repayment_amount m) * of_int (the (repayment_days_due_today m)))
                    - total_repayments m)
      else 0)"

text \<open>
  Subtracting from an absent \<^verbatim>\<open>repayment_days_due_today\<close> raises \<^verbatim>\<open>TypeError\<close>.
\<close>

definition expected_dpd :: "metrics_loan \<Rightarrow> error + int" where
  "expected_dpd m =
     (if truthy (actual_outstanding m) \<and> the (actual_outstanding m) > 0 then
        (case repayment_days_due_today m of
           None \<Rightarrow> Inl TypeError
         | Some due \<Rightarrow> Inr (max 0 (due - py_int (repayment_days_paid m))))
      else Inr 0)"

definition expected_early_indicator :: "metrics_loan \<Rightarrow> bool" where
  "expected_early_indicator m = (1 \<le> current_dpd m \<and> current_dpd m \<le> 6)"

subsection \<open>\<^verbatim>\<open>validate_repayment_delay_rate\<close>\<close>

definition expected_rate :: "metrics_loan \<Rightarrow> rat option" where
  "expected_rate m =
     (if truthy (loan_age m) \<and> the (loan_age m) > 0 then
        (case days_since_last_repayment m of
           Some since \<Rightarrow>
             Some ((1 - (((of_int (since + current_dpd m) / 2) / of_int (the (loan_age m)))
                          / (1 / 4))) * 100)
         | None \<Rightarrow>
             Some ((1 - ((of_int (current_dpd m) / of_int (the (loan_age m))) / (1 / 4))) * 100))
      else if loan_age m = Some 0 then Some 0
      else None)"

subsection \<open>\<^verbatim>\<open>validate_fimr_tagging\<close>\<close>

definition expected_fimr :: "system_clock \<Rightarrow> metrics_loan \<Rightarrow> bool" where
  "expected_fimr clk m =
     (case first_payment_due_date m of
        None \<Rightarrow> True
      | Some due \<Rightarrow>
          (if (case first_payment_received_date m of
                 None \<Rightarrow> False
               | Some received \<Rightarrow> received \<le> due) then False
           else if first_payment_received_date m = None \<and> due \<ge> date_today clk then False
           else True))"

definition expected_first_payment_missed :: "metrics_loan \<Rightarrow> bool" where
  "expected_first_payment_missed m =
     (case (first_payment_received_date m, first_payment_due_date m) of
        (Some received, Some due) \<Rightarrow> received > due
      | (None, _) \<Rightarrow> True
      | (Some received, None) \<Rightarrow> False)"

subsection \<open>The fields of a snapshot that depend on the evaluation date\<close>

text \<open>
  Modelled from the spec: the derivation of \<open>repayment_days_due_today\<close>, which the
  code only reads from the stored row and never computes. Section 4.3 gives it as the
  business days elapsed since disbursement, capped at the loan's term length.
\<close>

definition repayment_days_due_today_on :: "django_loan \<Rightarrow> date \<Rightarrow> error + int" where
  "repayment_days_due_today_on d evaluation_date =
     (case count_business_days (disbursement_date d) (Some evaluation_date) of
        Inl e \<Rightarrow> Inl e
      | Inr business_days \<Rightarrow> Inr (min business_days (loan_term_days d)))"

text \<open>
  Modelled from the spec: the assembly of a snapshot at an evaluation date (section 4.6),
  of which the code has no counterpart. The loan terms \<open>d\<close> and the repayment-derived
  fields of the row \<open>m\<close> (total repayments, daily amount, repayment days paid) are
  held fixed; the installments due, the actual outstanding and the DPD are recomputed, in
  that order, the last two by the code's own formulas.
\<close>

definition snapshot_on :: "django_loan \<Rightarrow> metrics_loan \<Rightarrow> date \<Rightarrow> error + metrics_loan" where
  "snapshot_on d m evaluation_date =
     (case repayment_days_due_today_on d evaluation_date of
        Inl e \<Rightarrow> Inl e
      | Inr due \<Rightarrow>
          (let m1 = m\<lparr>repayment_days_due_today := Some due\<rparr>;
               m2 = m1\<lparr>actual_outstanding := Some (expected_actual_outstanding m1)\<rparr>
           in case expected_dpd m2 of
                Inl e \<Rightarrow> Inl e
              | Inr dpd \<Rightarrow> Inr (m2\<lparr>current_dpd := dpd\<rparr>)))"

subsection \<open>A row used in the concrete evaluations\<close>

text \<open>
  A coherent row: a daily amount of 100, one installment due, and repayments summing to
  \<open>- 50\<close>, so that \<open>repayment_days_paid\<close> is \<open>- 50 / 100\<close> and the stored
  \<open>actual_outstanding\<close> is \<open>max 0 (100 * 1 + 50)\<close>.
\<close>

definition negative_paid_row :: metrics_loan where
  "negative_paid_row =
     \<lparr>first_payment_due_date = None, first_payment_received_date = None,
      total_principal_paid = 0, total_interest_paid = 0, total_fees_paid = 0,
      total_repayments = - 50, actual_outstanding = Some 150, current_dpd = 1,
      loan_age = Some 1, days_since_last_repayment = None,
      daily_repayment_amount = Some 100, repayment_days_paid = - 1 / 2,
      repayment_days_due_today = Some 1\<rparr>"

text \<open>
  A loan of 1000 at 15% with a fee of 50 over 30 days (a daily amount of 40), disbursed on
  a Wednesday, and its row two days later: one installment paid, three due.
\<close>

definition sample_loan :: django_loan where
  "sample_loan =
     \<lparr>loan_amount = 1000, disbursement_date = Some 739000, loan_term_days = 30,
      interest_rate = 15 / 100, fee_amount = Some 50\<rparr>"

definition sample_row :: metrics_loan where
  "sample_row =
     \<lparr>first_payment_due_date = Some 739001, first_payment_received_date = None,
      total_principal_paid = 0, total_interest_paid = 0, total_fees_paid = 0,
      total_repayments = 40, actual_outstanding = Some 80, current_dpd = 2,
      loan_age = Some 2, days_since_last_repayment = None,
      daily_repayment_amount = Some 40, repayment_days_paid = 1,
      repayment_days_due_today = Some 3\<rparr>"

text \<open>A loan of age 1 with no repayment and a given DPD.\<close>

definition overdue_row :: "int \<Rightarrow> metrics_loan" where
  "overdue_row dpd =
     \<lparr>first_payment_due_date = None, first_payment_received_date = None,
      total_principal_paid = 0, total_interest_paid = 0, total_fees_paid = 0,
      total_repayments = 0, actual_outstanding = Some 1, current_dpd = dpd,
      loan_age = Some 1, days_since_last_repayment = None,
      daily_repayment_amount = Some 1, repayment_days_paid = 0,
      repayment_days_due_today = Some dpd\<rparr>"

section \<open>Theorems\<close>

subsection \<open>Rounding helpers\<close>

lemma ceiling_minus_half: "\<lceil>- (1 / 2) :: rat\<rceil> = 0"
  by (rule ceiling_unique) simp_all

lemma floor_minus_half: "\<lfloor>- (1 / 2) :: rat\<rfloor> = - 1"
  by (rule floor_unique) simp_all

lemma py_int_nonneg: "0 \<le> x \<Longrightarrow> py_int x = \<lfloor>x\<rfloor>"
  by (simp add: py_int_def)

subsection \<open>Outstanding balances\<close>

text \<open>
  C1. For every loan row and every row of repayment totals, the expected outstanding
  balances are: principal outstanding is the loan amount minus the principal paid, with
  no clamping; interest outstanding is \<open>max 0 (loan_amount * interest_rate - interest paid)\<close>;
  fees outstanding is \<open>max 0 (fee - fees paid)\<close> with an absent fee taken as 0; and the
  total outstanding is exactly the sum of the three.
\<close>

theorem outstanding_balances:
  "expected_principal_outstanding d m = loan_amount d - total_principal_paid m
   \<and> expected_interest_outstanding d m
       = max 0 (loan_amount d * interest_rate d - total_interest_paid m)
   \<and> expected_fees_outstanding d m
       = max 0 ((case fee_amount d of None \<Rightarrow> 0 | Some fee \<Rightarrow> fee) - total_fees_paid m)
   \<and> expected_total_outstanding d m
       = expected_principal_outstanding d m + expected_interest_outstanding d m
           + expected_fees_outstanding d m"
  by (simp add: expected_principal_outstanding_def expected_interest_outstanding_def
      expected_fees_outstanding_def expected_total_outstanding_def fee_of_def truthy_def
      split: option.splits)

text \<open>An overpaid principal leaves a negative principal outstanding.\<close>

lemma principal_outstanding_overpaid:
  "expected_principal_outstanding
     \<lparr>loan_amount = 1000, disbursement_date = None, loan_term_days = 30,
      interest_rate = 15 / 100, fee_amount = Some 50\<rparr>
     (m\<lparr>total_principal_paid := 1200\<rparr>) = - 200"
  by (simp add: expected_principal_outstanding_def)

subsection \<open>Days past due\<close>

text \<open>
  C2, as the code has it. When \<open>actual_outstanding\<close> is absent the expected DPD is 0.
  When it is present and \<open>repayment_days_due_today\<close> is present, the expected DPD is
  \<open>max 0 (due - t)\<close> if \<open>actual_outstanding > 0\<close> and 0 otherwise, where \<open>t\<close> is
  \<open>repayment_days_paid\<close> truncated towards zero: its floor when it is not negative, its
  ceiling when it is negative.
\<close>

theorem dpd_truncates:
  "expected_dpd (m\<lparr>actual_outstanding := None\<rparr>) = Inr 0
   \<and> expected_dpd (m\<lparr>actual_outstanding := Some ao, repayment_days_due_today := Some due\<rparr>)
       = Inr (if ao > 0
              then max 0 (due - (if 0 \<le> repayment_days_paid m then \<lfloor>repayment_days_paid m\<rfloor>
                                 else \<lceil>repayment_days_paid m\<rceil>))
              else 0)"
  by (simp add: expected_dpd_def truthy_def py_int_def)

text \<open>
  C2, as the claim states it (with the floor), fails on a row whose
  \<open>repayment_days_paid\<close> is negative and not an integer: \<open>actual_outstanding\<close> is
  positive, the code's expected DPD is 1, the claim's formula gives 2.
\<close>

theorem dpd_floor_counterexample:
  "actual_outstanding negative_paid_row = Some 150
   \<and> repayment_days_due_today negative_paid_row = Some 1
   \<and> expected_dpd negative_paid_row = Inr 1
   \<and> max 0 (1 - \<lfloor>repayment_days_paid negative_paid_row\<rfloor>) = 2"
  by (simp add: negative_paid_row_def expected_dpd_def truthy_def py_int_def
      ceiling_minus_half floor_minus_half)

subsection \<open>Repayment delay rate\<close>

text \<open>
  C3. The expected repayment delay rate follows this case split: with a loan age above 0
  and a last repayment, \<open>(1 - (((since + dpd) / 2) / age) / 0.25) * 100\<close>; with a loan
  age above 0 and no repayment, \<open>(1 - (dpd / age) / 0.25) * 100\<close>; with a loan age of
  0, exactly 0; with no loan age, no rate (\<open>None\<close>, not 0).
\<close>

theorem delay_rate_cases:
  "expected_rate (m\<lparr>loan_age := None\<rparr>) = None
   \<and> expected_rate (m\<lparr>loan_age := Some 0\<rparr>) = Some 0
   \<and> expected_rate (m\<lparr>loan_age := Some age, days_since_last_repayment := Some since\<rparr>)
       = (if age > 0
          then Some ((1 - (((of_int since + of_int (current_dpd m)) / 2) / of_int age) / (1 / 4)) * 100)
          else if age = 0 then Some 0 else None)
   \<and> expected_rate (m\<lparr>loan_age := Some age, days_since_last_repayment := None\<rparr>)
       = (if age > 0
          then Some ((1 - (of_int (current_dpd m) / of_int age) / (1 / 4)) * 100)
          else if age = 0 then Some 0 else None)"
  by (simp add: expected_rate_def truthy_def)

subsection \<open>FIMR tagging\<close>

text \<open>
  C4. The expected FIMR tag is decided in this order: true when the first payment due
  date is absent, whatever the repayment history; with a due date and a first repayment,
  false exactly when the repayment is on or before the due date; with a due date and no
  repayment, false exactly when the due date is today or later; true in every other case.
\<close>

theorem fimr_cases:
  "expected_fimr clk (m\<lparr>first_payment_due_date := None\<rparr>) = True
   \<and> expected_fimr clk (m\<lparr>first_payment_due_date := Some due,
                            first_payment_received_date := Some received\<rparr>)
       = (\<not> received \<le> due)
   \<and> expected_fimr clk (m\<lparr>first_payment_due_date := Some due,
                            first_payment_received_date := None\<rparr>)
       = (\<not> due \<ge> date_today clk)"
  by (simp add: expected_fimr_def)

text \<open>
  C10. With no first payment due date and a first repayment, the expected
  \<open>first_payment_missed\<close> is false, while the expected FIMR tag is true.
\<close>

theorem missed_without_due_date:
  "expected_first_payment_missed
     (m\<lparr>first_payment_due_date := None, first_payment_received_date := Some received\<rparr>) = False
   \<and> expected_fimr clk
     (m\<lparr>first_payment_due_date := None, first_payment_received_date := Some received\<rparr>) = True"
  by (simp add: expected_first_payment_missed_def expected_fimr_def)

subsection \<open>Daily repayment amount\<close>

text \<open>
  C6. The expected daily repayment amount never raises: it is
  \<open>(loan_amount * (1 + interest_rate) + fee) / loan_term_days\<close> when the term is
  positive and 0 when the term is 0 or negative. With a stored daily amount of 0 (or
  none) the check of \<open>repayment_days_paid\<close> is skipped, and in no case does it divide
  by zero.
\<close>

theorem daily_repayment_guarded:
  "expected_daily_repayment d
     = Inr (if loan_term_days d > 0
            then (loan_amount d * (1 + interest_rate d)
                    + (case fee_amount d of None \<Rightarrow> 0 | Some fee \<Rightarrow> fee)) / of_int (loan_term_days d)
            else 0)
   \<and> expected_repayment_days_paid (m\<lparr>daily_repayment_amount := Some 0\<rparr>) = None
   \<and> expected_repayment_days_paid (m\<lparr>daily_repayment_amount := None\<rparr>) = None
   \<and> expected_repayment_days_paid m \<noteq> Some (Inl DivisionByZero)"
  by (auto simp add: expected_daily_repayment_def expected_repayment_days_paid_def dec_div_def
      repayment_amount_def fee_of_def truthy_def split: option.splits)

subsection \<open>Business days\<close>

lemma small_int_cases: "0 \<le> (k::int) \<Longrightarrow> (k < 5) = (k \<in> {0, 1, 2, 3, 4})"
  by (simp only: insert_iff empty_iff) arith

lemma weekday_business: "(weekday d < 5) = is_business_day d"
  unfolding weekday_def is_business_day_def
  by (rule small_int_cases) simp

lemma count_loop_step:
  "current \<le> end_date \<Longrightarrow> current + 1 \<le> MAXORDINAL \<Longrightarrow>
   count_loop current end_date days
     = count_loop (current + 1) end_date (if weekday current < 5 then days + 1 else days)"
  by (subst count_loop.simps) (simp add: next_day_def)

lemma count_loop_done:
  "\<not> current \<le> end_date \<Longrightarrow> count_loop current end_date days = Inr days"
  by (subst count_loop.simps) simp

lemma count_loop_last:
  "current \<le> end_date \<Longrightarrow> \<not> current + 1 \<le> MAXORDINAL \<Longrightarrow>
   count_loop current end_date days = Inl OverflowError"
  by (subst count_loop.simps) (simp add: next_day_def)

text \<open>
  What the loop returns, in every case: it raises exactly when it has to step past an end
  date that is the largest date or later; otherwise it adds the business days of the
  interval to the counter.
\<close>

lemma count_loop_exact:
  "count_loop current end_date days
     = (if current \<le> end_date \<and> MAXORDINAL \<le> end_date then Inl OverflowError
        else Inr (days + int (length (filter is_business_day [current..end_date]))))"
proof (induction current end_date days rule: count_loop.induct)
  case (1 current end_date days)
  show ?case
  proof (cases "current \<le> end_date")
    case False
    then show ?thesis
      by (simp add: count_loop_done)
  next
    case True
    show ?thesis
    proof (cases "current + 1 \<le> MAXORDINAL")
      case le: True
      then have nd: "next_day current = Inr (current + 1)"
        by (simp add: next_day_def)
      have up: "[current..end_date] = current # [current + 1..end_date]"
        using True by (simp add: upto_rec1)
      have over: "(current + 1 \<le> end_date \<and> MAXORDINAL \<le> end_date)
                    = (current \<le> end_date \<and> MAXORDINAL \<le> end_date)"
        using True le by auto
      have "count_loop current end_date days
              = count_loop (current + 1) end_date (if weekday current < 5 then days + 1 else days)"
        using True le by (rule count_loop_step)
      also have "\<dots> = (if current + 1 \<le> end_date \<and> MAXORDINAL \<le> end_date
                        then Inl OverflowError
                        else Inr ((if weekday current < 5 then days + 1 else days)
                          + int (length (filter is_business_day [current + 1..end_date]))))"
        using "1.IH" [OF True refl nd] .
      finally show ?thesis
        unfolding over by (simp add: up weekday_business)
    next
      case gt: False
      then have "MAXORDINAL \<le> end_date"
        using True by simp
      moreover have "count_loop current end_date days = Inl OverflowError"
        using True gt by (rule count_loop_last)
      ultimately show ?thesis
        using True by simp
    qed
  qed
qed

lemma business_days_card:
  "length (filter is_business_day [s..e]) = card {d. s \<le> d \<and> d \<le> e \<and> is_business_day d}"
proof -
  have "distinct (filter is_business_day [s..e])"
    by simp
  then have "length (filter is_business_day [s..e]) = card (set (filter is_business_day [s..e]))"
    by (simp only: distinct_card)
  moreover have "set (filter is_business_day [s..e]) = {d. s \<le> d \<and> d \<le> e \<and> is_business_day d}"
    by auto
  ultimately show ?thesis
    by simp
qed

lemma business_days_mono:
  assumes "e1 \<le> e2"
  shows "length (filter is_business_day [s..e1]) \<le> length (filter is_business_day [s..e2])"
proof (cases "s \<le> e1")
  case True
  then have "[s..e2] = [s..e1] @ [e1 + 1..e2]"
    using assms by (rule upto_split2)
  then show ?thesis
    by simp
next
  case False
  then show ?thesis
    by simp
qed

text \<open>
  What \<open>count_business_days\<close> returns, in every case. When either date is absent
  the count is 0 and nothing is raised. For two dates it returns the contract's count,
  the number of calendar days of the inclusive interval whose weekday is Monday to
  Friday, unless the interval is not empty and ends on 9999-12-31, the largest date (or
  later): then it raises \<open>OverflowError\<close>.
\<close>

lemma count_business_days_behaviour:
  "count_business_days None end_date = Inr 0
   \<and> count_business_days start_date None = Inr 0
   \<and> count_business_days (Some s) (Some e)
       = (if s \<le> e \<and> MAXORDINAL \<le> e then Inl OverflowError
          else Inr (businessDaysBetween (Some s) (Some e)))
   \<and> businessDaysBetween (Some s) (Some e)
       = int (card {d. s \<le> d \<and> d \<le> e \<and> weekday d \<in> {0, 1, 2, 3, 4}})"
proof -
  have "count_business_days None end_date = Inr 0"
    by (simp add: count_business_days_def)
  moreover have "count_business_days start_date None = Inr 0"
    by (simp add: count_business_days_def split: option.splits)
  moreover have "count_business_days (Some s) (Some e)
       = (if s \<le> e \<and> MAXORDINAL \<le> e then Inl OverflowError
          else Inr (businessDaysBetween (Some s) (Some e)))"
    by (simp add: count_business_days_def businessDaysBetween_def count_loop_exact)
  moreover have "businessDaysBetween (Some s) (Some e)
             = int (card {d. s \<le> d \<and> d \<le> e \<and> weekday d \<in> {0, 1, 2, 3, 4}})"
    using business_days_card [of s e]
    by (simp add: businessDaysBetween_def is_business_day_def)
  ultimately show ?thesis
    by simp
qed

text \<open>A week starting on a Wednesday has five business days.\<close>

lemma count_business_days_sample_week:
  "count_business_days (Some 739000) (Some 739006) = Inr 5"
  using count_business_days_behaviour [of "Some 739006" "Some 739000" 739000 739006]
  by (simp add: MAXORDINAL_def businessDaysBetween_def is_business_day_def weekday_def)

text \<open>
  C5. The contract asks for the count of the business days of the inclusive interval for
  every pair of dates. The code misses it when the end date is 9999-12-31, the largest
  date: the loop steps past the end date before it tests it, and that step raises
  \<open>OverflowError\<close>. For the interval of that single day, a Friday, the contract's
  count is 1 and the code raises.
\<close>

theorem count_business_days_overflow_at_max:
  "valid_date 3652059
   \<and> weekday 3652059 = 4
   \<and> businessDaysBetween (Some 3652059) (Some 3652059) = 1
   \<and> count_business_days (Some 3652059) (Some 3652059) = Inl OverflowError"
  by (simp add: count_business_days_def valid_date_def MAXORDINAL_def count_loop_exact
      businessDaysBetween_def is_business_day_def weekday_def)

subsection \<open>Monotonicity of the DPD in the evaluation date\<close>

lemma businessDaysBetween_mono:
  "e1 \<le> e2 \<Longrightarrow> businessDaysBetween s (Some e1) \<le> businessDaysBetween s (Some e2)"
  by (cases s) (simp_all add: businessDaysBetween_def business_days_mono)

lemma count_business_days_result:
  "count_business_days s (Some e) = Inr n \<Longrightarrow> n = businessDaysBetween s (Some e)"
  by (cases s)
     (auto simp add: count_business_days_def businessDaysBetween_def count_loop_exact
       split: if_splits)

lemma count_business_days_returns:
  "e < MAXORDINAL \<Longrightarrow>
   count_business_days s (Some e) = Inr (businessDaysBetween s (Some e))"
  by (simp add: count_business_days_def businessDaysBetween_def count_loop_exact
      split: option.splits)

lemma repayment_days_due_today_on_result:
  "repayment_days_due_today_on d e = Inr due \<Longrightarrow>
   due = min (businessDaysBetween (disbursement_date d) (Some e)) (loan_term_days d)"
  by (auto simp add: repayment_days_due_today_on_def split: sum.splits
      dest: count_business_days_result)

lemma repayment_days_due_today_on_returns:
  "e < MAXORDINAL \<Longrightarrow>
   repayment_days_due_today_on d e
     = Inr (min (businessDaysBetween (disbursement_date d) (Some e)) (loan_term_days d))"
  by (simp add: repayment_days_due_today_on_def count_business_days_returns)

lemma repayment_days_due_today_on_mono:
  assumes "e1 \<le> e2"
    and "repayment_days_due_today_on d e1 = Inr due1"
    and "repayment_days_due_today_on d e2 = Inr due2"
  shows "due1 \<le> due2"
  using businessDaysBetween_mono [OF assms(1), of "disbursement_date d"]
    repayment_days_due_today_on_result [OF assms(2)]
    repayment_days_due_today_on_result [OF assms(3)]
  by simp

lemma snapshot_on_value:
  assumes "repayment_days_due_today_on d e = Inr due"
  shows "\<exists>s. snapshot_on d m e = Inr s
           \<and> repayment_days_due_today s = Some due
           \<and> actual_outstanding s
               = Some (expected_actual_outstanding (m\<lparr>repayment_days_due_today := Some due\<rparr>))
           \<and> current_dpd s
               = (if 0 < expected_actual_outstanding (m\<lparr>repayment_days_due_today := Some due\<rparr>)
                  then max 0 (due - py_int (repayment_days_paid m)) else 0)"
  using assms
  by (simp add: snapshot_on_def expected_dpd_def truthy_def Let_def)

lemma snapshot_on_due:
  "snapshot_on d m e = Inr s \<Longrightarrow> \<exists>due. repayment_days_due_today_on d e = Inr due"
  by (cases "repayment_days_due_today_on d e") (simp_all add: snapshot_on_def)

lemma snapshot_on_positive:
  assumes "snapshot_on d m e = Inr s" and "actual_outstanding s = Some a" and "0 < a"
  shows "\<exists>due. repayment_days_due_today_on d e = Inr due
           \<and> current_dpd s = max 0 (due - py_int (repayment_days_paid m))"
proof -
  obtain due where due: "repayment_days_due_today_on d e = Inr due"
    using snapshot_on_due [OF assms(1)] by blast
  obtain s' where s': "snapshot_on d m e = Inr s'"
      "actual_outstanding s'
         = Some (expected_actual_outstanding (m\<lparr>repayment_days_due_today := Some due\<rparr>))"
      "current_dpd s'
         = (if 0 < expected_actual_outstanding (m\<lparr>repayment_days_due_today := Some due\<rparr>)
            then max 0 (due - py_int (repayment_days_paid m)) else 0)"
    using snapshot_on_value [OF due, of m] by blast
  have "s' = s"
    using s'(1) assms(1) by simp
  then have "current_dpd s = max 0 (due - py_int (repayment_days_paid m))"
    using s'(2,3) assms(2,3) by simp
  then show ?thesis
    using due by blast
qed

text \<open>
  C7. With the loan terms and the repayment-derived fields fixed, and two evaluation
  dates \<open>e1 \<le> e2\<close>: whenever both snapshots are computed and the actual outstanding
  is positive in both, the DPD at \<open>e2\<close> is at least the DPD at \<open>e1\<close>; and both
  snapshots are computed when \<open>e2\<close> is before the largest date.
\<close>

theorem dpd_monotone:
  assumes "e1 \<le> e2"
  shows "(e2 < MAXORDINAL \<longrightarrow>
            (\<exists>s1 s2. snapshot_on d m e1 = Inr s1 \<and> snapshot_on d m e2 = Inr s2))
         \<and> (\<forall>s1 s2 a1 a2.
               snapshot_on d m e1 = Inr s1 \<and> snapshot_on d m e2 = Inr s2
               \<and> actual_outstanding s1 = Some a1 \<and> 0 < a1
               \<and> actual_outstanding s2 = Some a2 \<and> 0 < a2
               \<longrightarrow> current_dpd s1 \<le> current_dpd s2)"
proof (intro conjI impI allI)
  assume lt: "e2 < MAXORDINAL"
  then have "e1 < MAXORDINAL"
    using assms by simp
  then obtain s1 where "snapshot_on d m e1 = Inr s1"
    using snapshot_on_value [OF repayment_days_due_today_on_returns, of e1 d m] by blast
  moreover obtain s2 where "snapshot_on d m e2 = Inr s2"
    using snapshot_on_value [OF repayment_days_due_today_on_returns, of e2 d m] lt by blast
  ultimately show "\<exists>s1 s2. snapshot_on d m e1 = Inr s1 \<and> snapshot_on d m e2 = Inr s2"
    by blast
next
  fix s1 s2 a1 a2
  assume h: "snapshot_on d m e1 = Inr s1 \<and> snapshot_on d m e2 = Inr s2
               \<and> actual_outstanding s1 = Some a1 \<and> 0 < a1
               \<and> actual_outstanding s2 = Some a2 \<and> 0 < a2"
  obtain due1 where d1: "repayment_days_due_today_on d e1 = Inr due1"
      "current_dpd s1 = max 0 (due1 - py_int (repayment_days_paid m))"
    using snapshot_on_positive [of d m e1 s1 a1] h by blast
  obtain due2 where d2: "repayment_days_due_today_on d e2 = Inr due2"
      "current_dpd s2 = max 0 (due2 - py_int (repayment_days_paid m))"
    using snapshot_on_positive [of d m e2 s2 a2] h by blast
  have "due1 \<le> due2"
    using assms d1(1) d2(1) by (rule repayment_days_due_today_on_mono)
  then show "current_dpd s1 \<le> current_dpd s2"
    using d1(2) d2(2) by simp
qed

lemma sample_business_days:
  "businessDaysBetween (Some 739000) (Some 739002) = 3"
  "businessDaysBetween (Some 739000) (Some 739006) = 5"
  by (simp_all add: businessDaysBetween_def is_business_day_def weekday_def)

lemma sample_snapshots:
  "\<exists>s. snapshot_on sample_loan sample_row 739002 = Inr s
        \<and> actual_outstanding s = Some 80 \<and> current_dpd s = 2"
  "\<exists>s. snapshot_on sample_loan sample_row 739006 = Inr s
        \<and> actual_outstanding s = Some 160 \<and> current_dpd s = 4"
proof -
  have r1: "repayment_days_due_today_on sample_loan 739002 = Inr 3"
    by (simp add: repayment_days_due_today_on_returns MAXORDINAL_def sample_loan_def
        sample_business_days)
  have r2: "repayment_days_due_today_on sample_loan 739006 = Inr 5"
    by (simp add: repayment_days_due_today_on_returns MAXORDINAL_def sample_loan_def
        sample_business_days)
  show "\<exists>s. snapshot_on sample_loan sample_row 739002 = Inr s
        \<and> actual_outstanding s = Some 80 \<and> current_dpd s = 2"
    using snapshot_on_value [OF r1, of sample_row]
    by (auto simp add: sample_row_def expected_actual_outstanding_def truthy_def py_int_def)
  show "\<exists>s. snapshot_on sample_loan sample_row 739006 = Inr s
        \<and> actual_outstanding s = Some 160 \<and> current_dpd s = 4"
    using snapshot_on_value [OF r2, of sample_row]
    by (auto simp add: sample_row_def expected_actual_outstanding_def truthy_def py_int_def)
qed

text \<open>
  The sample loan on its third and on its fifth business day: both snapshots are
  computed, the actual outstanding is 80 and 160, and the DPD does not decrease.
\<close>

theorem dpd_monotone_witness:
  "(739002::int) \<le> 739006 \<and> 739006 < MAXORDINAL
   \<and> (\<exists>s1 s2. snapshot_on sample_loan sample_row 739002 = Inr s1
         \<and> snapshot_on sample_loan sample_row 739006 = Inr s2
         \<and> actual_outstanding s1 = Some 80 \<and> actual_outstanding s2 = Some 160
         \<and> current_dpd s1 \<le> current_dpd s2)"
proof -
  have h1: "(739002::int) \<le> 739006" and h2: "739006 < MAXORDINAL"
    by (simp_all add: MAXORDINAL_def)
  note mono = dpd_monotone [OF h1, of sample_loan sample_row]
  obtain s1 s2 where s: "snapshot_on sample_loan sample_row 739002 = Inr s1"
      "snapshot_on sample_loan sample_row 739006 = Inr s2"
    using mono h2 by blast
  have a1: "actual_outstanding s1 = Some 80"
    using sample_snapshots(1) s(1) by auto
  have a2: "actual_outstanding s2 = Some 160"
    using sample_snapshots(2) s(2) by auto
  have "current_dpd s1 \<le> current_dpd s2"
    using mono s a1 a2 by simp
  then show ?thesis
    using h1 h2 s a1 a2 by blast
qed

subsection \<open>Dependence on the system clock\<close>

text \<open>
  C8, as the code has it. The expected business days since disbursement, the expected
  loan age and the expected FIMR tag read \<open>date.today()\<close>; they are determined by
  the rows and the calendar date of the clock: two runs on the same date agree, whatever
  the time of day.
\<close>

theorem clock_date_determines:
  assumes "date_today clk1 = date_today clk2"
  shows "expected_business_days clk1 d = expected_business_days clk2 d
         \<and> expected_loan_age clk1 d = expected_loan_age clk2 d
         \<and> expected_fimr clk1 m = expected_fimr clk2 m"
  unfolding expected_business_days_def expected_loan_age_def expected_fimr_def assms
  by simp

text \<open>Two runs on the same day, at its first and at its last second.\<close>

theorem clock_date_determines_witness:
  "expected_business_days \<lparr>local_date = 739002, seconds_into_day = 0\<rparr> sample_loan
     = expected_business_days \<lparr>local_date = 739002, seconds_into_day = 86399\<rparr> sample_loan
   \<and> expected_loan_age \<lparr>local_date = 739002, seconds_into_day = 0\<rparr> sample_loan
     = expected_loan_age \<lparr>local_date = 739002, seconds_into_day = 86399\<rparr> sample_loan
   \<and> expected_fimr \<lparr>local_date = 739002, seconds_into_day = 0\<rparr> sample_row
     = expected_fimr \<lparr>local_date = 739002, seconds_into_day = 86399\<rparr> sample_row"
  using clock_date_determines [of "\<lparr>local_date = 739002, seconds_into_day = 0\<rparr>"
      "\<lparr>local_date = 739002, seconds_into_day = 86399\<rparr>" sample_loan sample_row]
  by (simp add: date_today_def)

text \<open>
  C8, as the claim states it (no clock is read, the result does not depend on when the
  computation runs), fails: on the same rows, a run on the due date and a run on the next
  day give different FIMR tags and different loan ages.
\<close>

theorem clock_read_counterexample:
  "expected_fimr \<lparr>local_date = 739001, seconds_into_day = 0\<rparr> sample_row = False
   \<and> expected_fimr \<lparr>local_date = 739002, seconds_into_day = 0\<rparr> sample_row = True
   \<and> expected_loan_age \<lparr>local_date = 739001, seconds_into_day = 0\<rparr> sample_loan = Some 1
   \<and> expected_loan_age \<lparr>local_date = 739002, seconds_into_day = 0\<rparr> sample_loan = Some 2"
  by (simp add: expected_fimr_def expected_loan_age_def date_today_def sample_row_def
      sample_loan_def)


subsection \<open>Bounds of the repayment delay rate\<close>

lemma rate_le_100: "0 \<le> (q::rat) \<Longrightarrow> (1 - q / (1 / 4)) * 100 \<le> 100"
  by simp

lemma expected_rate_positive_age:
  "loan_age m = Some age \<Longrightarrow> 0 < age \<Longrightarrow>
   expected_rate m =
     (case days_since_last_repayment m of
        Some since \<Rightarrow>
          Some ((1 - ((rat_of_int (since + current_dpd m) / 2) / rat_of_int age) / (1 / 4)) * 100)
      | None \<Rightarrow> Some ((1 - (rat_of_int (current_dpd m) / rat_of_int age) / (1 / 4)) * 100))"
  by (simp add: expected_rate_def truthy_def split: option.splits)

lemma overdue_row_rate:
  "expected_rate (overdue_row dpd) = Some (100 - 400 * rat_of_int dpd)"
  by (simp add: overdue_row_def expected_rate_def truthy_def algebra_simps)

text \<open>
  C9, as the code has it. With a positive loan age, a DPD that is not negative and, when
  present, a number of days since the last repayment that is not negative, the expected
  rate exists and is at most 100.
\<close>

theorem delay_rate_upper_bound:
  assumes "loan_age m = Some age" and "0 < age" and "0 \<le> current_dpd m"
    and "case days_since_last_repayment m of None \<Rightarrow> True | Some since \<Rightarrow> 0 \<le> since"
  shows "\<exists>r. expected_rate m = Some r \<and> r \<le> 100"
proof (cases "days_since_last_repayment m")
  case None
  have "0 \<le> rat_of_int (current_dpd m) / rat_of_int age"
    using assms(2,3) by simp
  then have "(1 - (rat_of_int (current_dpd m) / rat_of_int age) / (1 / 4)) * 100 \<le> 100"
    by (rule rate_le_100)
  moreover have "expected_rate m
      = Some ((1 - (rat_of_int (current_dpd m) / rat_of_int age) / (1 / 4)) * 100)"
    using expected_rate_positive_age [OF assms(1,2)] None by simp
  ultimately show ?thesis
    by blast
next
  case (Some since)
  then have "0 \<le> since"
    using assms(4) by simp
  then have "0 \<le> (rat_of_int (since + current_dpd m) / 2) / rat_of_int age"
    using assms(2,3) by simp
  then have "(1 - ((rat_of_int (since + current_dpd m) / 2) / rat_of_int age) / (1 / 4)) * 100
               \<le> 100"
    by (rule rate_le_100)
  moreover have "expected_rate m
      = Some ((1 - ((rat_of_int (since + current_dpd m) / 2) / rat_of_int age) / (1 / 4)) * 100)"
    using expected_rate_positive_age [OF assms(1,2)] Some by (simp only: option.case)
  ultimately show ?thesis
    by blast
qed

text \<open>A loan of age 1 with a DPD of 1000.\<close>

theorem delay_rate_upper_bound_witness:
  "\<exists>r. expected_rate (overdue_row 1000) = Some r \<and> r \<le> 100"
  using delay_rate_upper_bound [of "overdue_row 1000" 1]
  by (simp add: overdue_row_def)

text \<open>
  C9, as the claim states it (fixed finite bounds on both sides), fails: the rate of a
  loan of age 1 with a DPD of 1000 is \<open>- 399900\<close>, and no number is a lower bound of
  the rate over the inputs the claim admits.
\<close>

theorem delay_rate_unbounded_counterexample:
  "expected_rate (overdue_row 1000) = Some (- 399900)
   \<and> \<not> (\<exists>lo. \<forall>m age. loan_age m = Some age \<and> 0 < age \<and> 0 \<le> current_dpd m
              \<and> days_since_last_repayment m = None
              \<longrightarrow> (\<exists>r. expected_rate m = Some r \<and> lo \<le> r))"
proof -
  have "\<exists>m age. (loan_age m = Some age \<and> 0 < age \<and> 0 \<le> current_dpd m
              \<and> days_since_last_repayment m = None)
              \<and> \<not> (\<exists>r. expected_rate m = Some r \<and> lo \<le> r)" for lo :: rat
  proof -
    define dpd :: int where "dpd = max 1 (\<lceil>- lo\<rceil> + 1)"
    have "- lo \<le> rat_of_int \<lceil>- lo\<rceil>"
      by (rule le_of_int_ceiling)
    moreover have "rat_of_int \<lceil>- lo\<rceil> + 1 \<le> rat_of_int dpd"
      unfolding dpd_def by (simp add: max_def)
    moreover have "1 \<le> rat_of_int dpd"
      unfolding dpd_def by (simp add: max_def)
    ultimately have "100 - 400 * rat_of_int dpd < lo"
      by linarith
    moreover have "0 \<le> dpd"
      unfolding dpd_def by simp
    ultimately have "(loan_age (overdue_row dpd) = Some 1 \<and> (0::int) < 1 \<and> 0 \<le> current_dpd (overdue_row dpd)
              \<and> days_since_last_repayment (overdue_row dpd) = None)
              \<and> \<not> (\<exists>r. expected_rate (overdue_row dpd) = Some r \<and> lo \<le> r)"
      by (simp add: overdue_row_rate) (simp add: overdue_row_def)
    then show ?thesis
      by blast
  qed
  then have "\<not> (\<exists>lo. \<forall>m age. loan_age m = Some age \<and> 0 < age \<and> 0 \<le> current_dpd m
              \<and> days_since_last_repayment m = None
              \<longrightarrow> (\<exists>r. expected_rate m = Some r \<and> lo \<le> r))"
    by blast
  moreover have "expected_rate (overdue_row 1000) = Some (- 399900)"
    by (simp add: overdue_row_rate)
  ultimately show ?thesis
    by simp
qed

end
